theory Spec2Isabelle
  imports Complex_Main
begin

section \<open>Python values, exceptions and console output\<close>

text \<open>
  An exception object is its class, given by the method resolution order (the names of the
  class and of its ancestors, most specific first), and its message. An \<open>except C\<close>
  clause matches an exception whose class is \<open>C\<close> or a subclass of it, so matching is
  membership of \<open>C\<close> in the resolution order.
\<close>

datatype py_exn = PyExn (mro: "string list") (message: string)

definition isinstance :: "py_exn \<Rightarrow> string \<Rightarrow> bool" where
  "isinstance e c = (c \<in> set (mro e))"

definition type_name :: "py_exn \<Rightarrow> string" where
  "type_name e = (case mro e of [] \<Rightarrow> [] | c # _ \<Rightarrow> c)"

definition FileNotFoundError :: "string \<Rightarrow> py_exn" where
  "FileNotFoundError m =
     PyExn [''FileNotFoundError'', ''OSError'', ''Exception'', ''BaseException'', ''object''] m"

definition ModuleNotFoundError :: "string \<Rightarrow> py_exn" where
  "ModuleNotFoundError m =
     PyExn [''ModuleNotFoundError'', ''ImportError'', ''Exception'', ''BaseException'',
            ''object''] m"

definition ZeroDivisionError :: "string \<Rightarrow> py_exn" where
  "ZeroDivisionError m =
     PyExn [''ZeroDivisionError'', ''ArithmeticError'', ''Exception'', ''BaseException'',
            ''object''] m"

definition OverflowError :: "string \<Rightarrow> py_exn" where
  "OverflowError m =
     PyExn [''OverflowError'', ''ArithmeticError'', ''Exception'', ''BaseException'',
            ''object''] m"

definition KeyError :: "string \<Rightarrow> py_exn" where
  "KeyError m = PyExn [''KeyError'', ''LookupError'', ''Exception'', ''BaseException'', ''object''] m"

definition TypeError :: "string \<Rightarrow> py_exn" where
  "TypeError m = PyExn [''TypeError'', ''Exception'', ''BaseException'', ''object''] m"

definition ValueError :: "string \<Rightarrow> py_exn" where
  "ValueError m = PyExn [''ValueError'', ''Exception'', ''BaseException'', ''object''] m"

definition KeyboardInterrupt :: "string \<Rightarrow> py_exn" where
  "KeyboardInterrupt m = PyExn [''KeyboardInterrupt'', ''BaseException'', ''object''] m"

text \<open>
  A printed line is the list of the pieces of its f-string: literal text, and the
  interpolated values together with their format specification. A finite Python float is
  the real number it holds.
\<close>

datatype frag =
    Txt string          \<comment> \<open>literal text\<close>
  | Str string          \<comment> \<open>\<open>{s}\<close> for a string, or \<open>{e}\<close> for an exception (its message)\<close>
  | Num int             \<comment> \<open>\<open>{n}\<close> for an integer\<close>
  | IntR int nat        \<comment> \<open>\<open>{n:>w}\<close>: an integer right-aligned in width \<open>w\<close>\<close>
  | Fix real nat        \<comment> \<open>\<open>{x:.df}\<close>: a float with \<open>d\<close> decimals\<close>
  | Repr real           \<comment> \<open>\<open>{x}\<close> for a float\<close>

type_synonym line = "frag list"

definition check_mark :: string where
  "check_mark = [CHR 0xE2, CHR 0x9C, CHR 0x93]"

definition cross_mark :: string where
  "cross_mark = [CHR 0xE2, CHR 0x9C, CHR 0x97]"

definition nl :: string where
  "nl = [CHR 0x0A]"

fun join :: "string \<Rightarrow> string list \<Rightarrow> string" where
  "join sep [] = []"
| "join sep [x] = x"
| "join sep (x # y # ys) = x @ sep @ join sep (y # ys)"

text \<open>
  A computation prints lines and then either returns a value or raises: the lines
  printed so far are kept when it raises.
\<close>

type_synonym 'a run = "line list \<times> (py_exn + 'a)"

definition ret :: "'a \<Rightarrow> 'a run" where
  "ret x = ([], Inr x)"

definition emit :: "line list \<Rightarrow> unit run" where
  "emit ls = (ls, Inr ())"

definition call :: "py_exn + 'a \<Rightarrow> 'a run" where
  "call r = ([], r)"

definition seq :: "'a run \<Rightarrow> ('a \<Rightarrow> 'b run) \<Rightarrow> 'b run" where
  "seq m f =
     (case m of
        (out, Inl e) \<Rightarrow> (out, Inl e)
      | (out, Inr x) \<Rightarrow> (case f x of (out', r) \<Rightarrow> (out @ out', r)))"

subsection \<open>Floating-point arithmetic\<close>

text \<open>
  Python's floats are IEEE 754 binary64 numbers. The result of an operation is the exact
  result rounded to the nearest number with a 53-bit significand, the even one of the two
  at a tie; below \<open>2 powi (- 1022)\<close> the spacing stays \<open>2 powi (- 1074)\<close>.
  \<open>round_float\<close> is that rounding, without a bound on the magnitude; \<open>to_float\<close>
  adds the overflow to infinity.
\<close>

datatype pyfloat = Finite real | PosInf | NegInf

definition round_even :: "real \<Rightarrow> int" where
  "round_even s =
     (let f = \<lfloor>s\<rfloor>; r = s - of_int f
      in if r < 1 / 2 then f else if 1 / 2 < r then f + 1 else if even f then f else f + 1)"

definition float_exponent :: "real \<Rightarrow> int" where
  "float_exponent x = max (\<lfloor>log 2 \<bar>x\<bar>\<rfloor> - 52) (- 1074)"

definition round_float :: "real \<Rightarrow> real" where
  "round_float x =
     (if x = 0 then 0
      else of_int (round_even (x / 2 powi float_exponent x)) * 2 powi float_exponent x)"

definition float_max :: real where
  "float_max = (2 ^ 53 - 1) * 2 ^ 971"

definition to_float :: "real \<Rightarrow> pyfloat" where
  "to_float x =
     (let r = round_float x
      in if float_max < r then PosInf else if r < - float_max then NegInf else Finite r)"

definition float_mul :: "real \<Rightarrow> real \<Rightarrow> pyfloat" where
  \<comment> \<open>the product of two finite floats\<close>
  "float_mul x y = to_float (x * y)"

definition float_sub :: "real \<Rightarrow> pyfloat \<Rightarrow> pyfloat" where
  \<comment> \<open>a finite float minus a float\<close>
  "float_sub x y =
     (case y of Finite r \<Rightarrow> to_float (x - r) | PosInf \<Rightarrow> NegInf | NegInf \<Rightarrow> PosInf)"

definition fix_float :: "pyfloat \<Rightarrow> nat \<Rightarrow> frag" where
  \<comment> \<open>\<open>{x:.df}\<close>: an infinite float prints as \<open>inf\<close> or \<open>-inf\<close>\<close>
  "fix_float x d =
     (case x of Finite r \<Rightarrow> Fix r d | PosInf \<Rightarrow> Str ''inf'' | NegInf \<Rightarrow> Str ''-inf'')"

text \<open>
  \<open>a / b\<close> on integers is the correctly rounded quotient; it raises for a zero divisor
  and when the quotient is too large for a float.
\<close>

definition py_truediv :: "int \<Rightarrow> int \<Rightarrow> py_exn + real" where
  "py_truediv a b =
     (if b = 0 then Inl (ZeroDivisionError ''division by zero'')
      else case to_float (real_of_int a / real_of_int b) of
             Finite q \<Rightarrow> Inr q
           | _ \<Rightarrow> Inl (OverflowError ''integer division result too large for a float''))"

subsection \<open>Objects\<close>

text \<open>
  The objects an attribute of the external library may hold: the script only tests
  membership, subscripts by a string key and takes a length.
\<close>

datatype pyobj =
    PyNone
  | PyInt int
  | PyList "pyobj list"
  | PyDict "(string \<times> pyobj) list"

fun py_contains :: "string \<Rightarrow> pyobj \<Rightarrow> py_exn + bool" where
  "py_contains k (PyDict d) = Inr (k \<in> fst ` set d)"
| "py_contains k (PyList xs) = Inr False"  \<comment> \<open>no element of such a list is a string\<close>
| "py_contains k PyNone = Inl (TypeError ''argument of type 'NoneType' is not iterable'')"
| "py_contains k (PyInt n) = Inl (TypeError ''argument of type 'int' is not iterable'')"

definition py_repr :: "string \<Rightarrow> string" where
  \<comment> \<open>\<open>repr\<close> of a string without quotes, backslashes or control characters, as the
      keys of the script are\<close>
  "py_repr k = [CHR 0x27] @ k @ [CHR 0x27]"

fun py_getitem :: "pyobj \<Rightarrow> string \<Rightarrow> py_exn + pyobj" where
  "py_getitem (PyDict d) k =
     (case map_of d k of None \<Rightarrow> Inl (KeyError (py_repr k)) | Some v \<Rightarrow> Inr v)"
| "py_getitem (PyList xs) k = Inl (TypeError ''list indices must be integers or slices, not str'')"
| "py_getitem PyNone k = Inl (TypeError '''NoneType' object is not subscriptable'')"
| "py_getitem (PyInt n) k = Inl (TypeError '''int' object is not subscriptable'')"

fun py_len :: "pyobj \<Rightarrow> py_exn + int" where
  "py_len (PyList xs) = Inr (int (length xs))"
| "py_len (PyDict d) = Inr (int (length (remdups (map fst d))))"
| "py_len PyNone = Inl (TypeError ''object of type 'NoneType' has no len()'')"
| "py_len (PyInt n) = Inl (TypeError ''object of type 'int' has no len()'')"

section \<open>The data of the external library, as the script reads it\<close>

text \<open>
  A sample is a mapping with at least the keys \<open>patient_id\<close> and \<open>label\<close>; the
  feature fields are never read by the script and are kept abstract. A sample collection
  has a length, iterates over its samples, and may have an \<open>input_info\<close> attribute
  (\<open>None\<close> when \<open>hasattr\<close> is false).
\<close>

record 'f sample =
  patient_id :: string
  label :: int
  features :: 'f

record 'f sample_dataset =
  samples :: "'f sample list"
  input_info :: "pyobj option"

record dataset =
  patients :: "string list"
  tables :: "string list"

definition len :: "'f sample_dataset \<Rightarrow> int" where
  "len t = int (length (samples t))"

text \<open>
  The four operations of the external library. Each either returns or raises; what they
  compute is not part of this repository, so they are parameters of the script.
\<close>

record 'f pyhealth =
  MIMIC4Dataset :: "string \<Rightarrow> string list \<Rightarrow> bool \<Rightarrow> bool \<Rightarrow> py_exn + dataset"
  set_task :: "dataset \<Rightarrow> py_exn + 'f sample_dataset"
  stat_code_mapping ::
    "'f sample_dataset \<Rightarrow> string \<Rightarrow> string \<Rightarrow> int option \<Rightarrow> py_exn + 'f sample_dataset"
  split_by_patient ::
    "'f sample_dataset \<Rightarrow> real list \<Rightarrow> int \<Rightarrow>
       py_exn + ('f sample_dataset \<times> 'f sample_dataset \<times> 'f sample_dataset)"

section \<open>The mortality-prediction script\<close>

subsection \<open>Steps 1 to 3: load, label, map codes\<close>

definition step1 :: "'f pyhealth \<Rightarrow> dataset run" where
  "step1 env =
     seq (emit [[Txt (nl @ ''[Step 1] Loading MIMIC-IV Dataset...'')],
                [Txt (replicate 80 CHR ''-'')]]) (\<lambda>_.
     seq (call (MIMIC4Dataset env ''/path/to/mimiciv/''
                  [''diagnoses_icd'', ''procedures_icd'', ''prescriptions''] True False))
       (\<lambda>mimic4_dataset.
     seq (emit [[Txt (check_mark @ '' Dataset loaded successfully'')],
                [Txt ''  - Number of patients: '',
                 Num (int (length (patients mimic4_dataset)))],
                [Txt ''  - Tables loaded: '', Str (join '', '' (tables mimic4_dataset))]]) (\<lambda>_.
     ret mimic4_dataset)))"

definition step2 :: "'f pyhealth \<Rightarrow> dataset \<Rightarrow> 'f sample_dataset run" where
  "step2 env mimic4_dataset =
     seq (emit [[Txt (nl @ ''[Step 2] Applying In-Hospital Mortality Prediction Task...'')],
                [Txt (replicate 80 CHR ''-'')]]) (\<lambda>_.
     seq (call (set_task env mimic4_dataset)) (\<lambda>task_ds.
     seq (emit [[Txt (check_mark @ '' Task applied successfully'')],
                [Txt ''  - Task type: In-Hospital Mortality Prediction''],
                [Txt ''  - Number of samples: '', Num (len task_ds)]]) (\<lambda>_.
     ret task_ds)))"

definition step3 :: "'f pyhealth \<Rightarrow> 'f sample_dataset \<Rightarrow> 'f sample_dataset run" where
  "step3 env task_ds0 =
     seq (emit [[Txt (nl @ ''[Step 3] Preprocessing - Mapping Medical Codes...'')],
                [Txt (replicate 80 CHR ''-'')],
                [Txt ''  a) Mapping NDC drug codes to ATC Level 3...'']]) (\<lambda>_.
     seq (call (stat_code_mapping env task_ds0 ''NDC'' ''ATC'' (Some 3))) (\<lambda>task_ds1.
     seq (emit [[Txt (''     '' @ check_mark @ '' NDC codes mapped to ATC Level 3'')],
                [Txt ''  b) Mapping ICD9CM codes to ICD10CM...'']]) (\<lambda>_.
     seq (call (stat_code_mapping env task_ds1 ''ICD9CM'' ''ICD10CM'' None)) (\<lambda>task_ds.
     seq (emit [[Txt (''     '' @ check_mark @ '' ICD9CM codes mapped to ICD10CM'')]]) (\<lambda>_.
     ret task_ds)))))"

subsection \<open>Step 4: split and print the share of each part\<close>

definition size_line :: "string \<Rightarrow> 'f sample_dataset \<Rightarrow> 'f sample_dataset \<Rightarrow> unit run" where
  "size_line pre part task_ds =
     seq (call (py_truediv (len part) (len task_ds))) (\<lambda>q.
     emit [[Txt pre, IntR (len part) 6, Txt '' samples ('',
            fix_float (float_mul q 100) 1, Txt ''%)'']])"

definition step4 ::
  "'f pyhealth \<Rightarrow> 'f sample_dataset \<Rightarrow>
     ('f sample_dataset \<times> 'f sample_dataset \<times> 'f sample_dataset) run" where
  "step4 env task_ds =
     seq (emit [[Txt (nl @ ''[Step 4] Splitting Data into Train/Validation/Test Sets...'')],
                [Txt (replicate 80 CHR ''-'')]]) (\<lambda>_.
     seq (call (split_by_patient env task_ds [0.8, 0.1, 0.1] 42)) (\<lambda>(train_ds, val_ds, test_ds).
     seq (emit [[Txt (check_mark @ '' Data split completed'')]]) (\<lambda>_.
     seq (size_line ''  - Training set size:   '' train_ds task_ds) (\<lambda>_.
     seq (size_line ''  - Validation set size: '' val_ds task_ds) (\<lambda>_.
     seq (size_line ''  - Test set size:       '' test_ds task_ds) (\<lambda>_.
     ret (train_ds, val_ds, test_ds)))))))"

subsection \<open>Step 5: vocabulary sizes\<close>

text \<open>
  The script repeats one block for each of the three features; \<open>vocab_line\<close> is that
  block, with the key and the text before the value as arguments.
\<close>

definition vocab_line :: "'f sample_dataset \<Rightarrow> string \<Rightarrow> string \<Rightarrow> unit run" where
  "vocab_line task_ds key pre =
     (case input_info task_ds of
        None \<Rightarrow> emit [[Txt (pre @ ''N/A (not in input_info)'')]]
      | Some info \<Rightarrow>
          seq (call (py_contains key info)) (\<lambda>present.
          if present then
            seq (call (py_getitem info key)) (\<lambda>entry.
            seq (call (py_getitem entry ''vocab'')) (\<lambda>vocab.
            seq (call (py_len vocab)) (\<lambda>vocab_size.
            emit [[Txt pre, IntR vocab_size 6, Txt '' unique codes'']])))
          else emit [[Txt (pre @ ''N/A (not in input_info)'')]]))"

definition step5 :: "'f sample_dataset \<Rightarrow> unit run" where
  "step5 task_ds =
     seq (emit [[Txt (nl @ ''[Step 5] Feature Tokenization - Inspecting Vocabulary Statistics...'')],
                [Txt (replicate 80 CHR ''-'')],
                [Txt ''  Vocabulary Statistics:'']]) (\<lambda>_.
     seq (vocab_line task_ds ''conditions'' ''    - Conditions (Diagnoses):  '') (\<lambda>_.
     seq (vocab_line task_ds ''procedures'' ''    - Procedures:              '') (\<lambda>_.
     seq (vocab_line task_ds ''drugs'' ''    - Drugs (Prescriptions):   '') (\<lambda>_.
     emit [[Txt (nl @ ''  Note: PyHealth's Vocab class can be used for detailed inspection:'')],
           [Txt ''    - vocab.word2idx: mapping from codes to indices''],
           [Txt ''    - vocab.idx2word: mapping from indices to codes''],
           [Txt ''    - vocab.size(): total vocabulary size'']]))))"

subsection \<open>Step 6: final statistics\<close>

definition n_patients :: "'f sample_dataset \<Rightarrow> int" where
  \<comment> \<open>\<open>len({sample['patient_id'] for sample in ds})\<close>\<close>
  "n_patients ds = int (length (remdups (map patient_id (samples ds))))"

definition label_distribution :: "'f sample_dataset \<Rightarrow> unit run" where
  "label_distribution task_ds =
     (if len task_ds > 0 then
        (let labels = map label (samples task_ds);
             mortality_count = sum_list labels
         in seq (call (py_truediv mortality_count (int (length labels)))) (\<lambda>q.
            let mortality_rate = float_mul q 100
            in emit [[Txt ''    - Mortality cases:         '', IntR mortality_count 6,
                      Txt '' ('', fix_float mortality_rate 2, Txt ''%)''],
                     [Txt ''    - Survived cases:          '',
                      IntR (int (length labels) - mortality_count) 6,
                      Txt '' ('', fix_float (float_sub 100 mortality_rate) 2, Txt ''%)'']]))
      else ret ())"

definition step6 ::
  "'f sample_dataset \<Rightarrow> 'f sample_dataset \<Rightarrow> 'f sample_dataset \<Rightarrow> 'f sample_dataset \<Rightarrow> unit run"
  where
  "step6 task_ds train_ds val_ds test_ds =
     seq (emit [[Txt (nl @ ''[Step 6] Final Dataset Statistics...'')],
                [Txt (replicate 80 CHR ''-'')],
                [Txt (nl @ ''  Overall Dataset (task_ds):'')],
                [Txt ''    - Total samples:           '', IntR (len task_ds) 6],
                [Txt ''    - Number of patients:      '', IntR (n_patients task_ds) 6]]) (\<lambda>_.
     seq (label_distribution task_ds) (\<lambda>_.
     emit [[Txt (nl @ ''  Training Set:'')],
           [Txt ''    - Samples:                 '', IntR (len train_ds) 6],
           [Txt ''    - Patients:                '', IntR (n_patients train_ds) 6],
           [Txt (nl @ ''  Validation Set:'')],
           [Txt ''    - Samples:                 '', IntR (len val_ds) 6],
           [Txt ''    - Patients:                '', IntR (n_patients val_ds) 6],
           [Txt (nl @ ''  Test Set:'')],
           [Txt ''    - Samples:                 '', IntR (len test_ds) 6],
           [Txt ''    - Patients:                '', IntR (n_patients test_ds) 6]]))"

subsection \<open>The whole pipeline and the entry point\<close>

definition success_banner :: line where
  "success_banner = [Txt ''Pipeline Completed Successfully!'']"

definition closing :: "line list" where
  "closing =
     [[Txt (nl @ replicate 80 CHR ''='')],
      success_banner,
      [Txt (replicate 80 CHR ''='')],
      [Txt (nl @ ''  Next Steps:'')],
      [Txt ''    1. Use pyhealth.data.DataLoader to create batches for model training''],
      [Txt ''    2. Choose a model from pyhealth.models (e.g., RNN, Transformer)''],
      [Txt ''    3. Train the model on train_ds and validate on val_ds''],
      [Txt ''    4. Evaluate final performance on test_ds''],
      [Txt (nl @ ''  Example DataLoader Usage:'')],
      [Txt ''    from pyhealth.data import DataLoader''],
      [Txt ''    train_loader = DataLoader(train_ds, batch_size=32, shuffle=True)''],
      [Txt ''    for batch in train_loader:''],
      [Txt ''        # batch contains tokenized features and labels''],
      [Txt ''        pass'']]"

definition main ::
  "'f pyhealth \<Rightarrow>
     ('f sample_dataset \<times> 'f sample_dataset \<times> 'f sample_dataset \<times> 'f sample_dataset) run" where
  "main env =
     seq (emit [[Txt (replicate 80 CHR ''='')],
                [Txt ''MIMIC-IV Mortality Prediction Dataset Creation Pipeline''],
                [Txt (replicate 80 CHR ''='')]]) (\<lambda>_.
     seq (step1 env) (\<lambda>mimic4_dataset.
     seq (step2 env mimic4_dataset) (\<lambda>task_ds0.
     seq (step3 env task_ds0) (\<lambda>task_ds.
     seq (step4 env task_ds) (\<lambda>(train_ds, val_ds, test_ds).
     seq (step5 task_ds) (\<lambda>_.
     seq (step6 task_ds train_ds val_ds test_ds) (\<lambda>_.
     seq (emit closing) (\<lambda>_.
     ret (task_ds, train_ds, val_ds, test_ds)))))))))"

text \<open>
  The entry point: the \<open>try\<close> around \<open>main()\<close> with its three handlers, tried in
  the order of the source. The result is everything printed, and the exception that leaves
  the script (\<open>None\<close> when the script ends normally).
\<close>

definition data_not_found :: "py_exn \<Rightarrow> line list" where
  "data_not_found e =
     [[Txt (nl @ cross_mark @ '' Error: MIMIC-IV data not found!'')],
      [Txt ''  '', Str (message e)],
      [Txt (nl @ ''  Please update the 'root' parameter in MIMIC4Dataset to point'')],
      [Txt ''  to your MIMIC-IV data directory.''],
      [Txt (nl @ ''  Example: root='/actual/path/to/mimiciv/'' @ [CHR 0x27])]]"

definition library_missing :: "py_exn \<Rightarrow> line list" where
  "library_missing e =
     [[Txt (nl @ cross_mark @ '' Error: Required library not installed!'')],
      [Txt ''  '', Str (message e)],
      [Txt (nl @ ''  Please install pyhealth:'')],
      [Txt ''    pip install pyhealth'']]"

definition unexpected :: "py_exn \<Rightarrow> line list" where
  "unexpected e =
     [[Txt (nl @ cross_mark @ '' Unexpected error occurred: ''), Str (type_name e)],
      [Txt ''  '', Str (message e)]]"

definition script :: "'f pyhealth \<Rightarrow> line list \<times> py_exn option" where
  "script env =
     (case main env of
        (out, Inr _) \<Rightarrow>
          (out @ [[Txt (nl @ check_mark @ '' Script executed successfully!'')],
                  [Txt ''  Datasets are ready for model training and evaluation.'']], None)
      | (out, Inl e) \<Rightarrow>
          if isinstance e ''FileNotFoundError'' then (out @ data_not_found e, None)
          else if isinstance e ''ImportError'' then (out @ library_missing e, None)
          else if isinstance e ''Exception'' then (out @ unexpected e, Some e)
          else (out, Some e))"

subsection \<open>Stand-ins for the external library\<close>

text \<open>
  The script can be run against a stand-in for the library. \<open>stub load t\<close> answers
  the loading call with \<open>load\<close> and the labelling call with the collection \<open>t\<close>,
  leaves a collection unchanged when mapping codes, and puts every sample in the first
  part when splitting.
\<close>

definition no_samples :: "unit sample_dataset" where
  "no_samples = \<lparr>samples = [], input_info = None\<rparr>"

definition stub :: "py_exn + dataset \<Rightarrow> unit sample_dataset \<Rightarrow> unit pyhealth" where
  "stub load t =
     \<lparr>MIMIC4Dataset = (\<lambda>root tabs dev refresh_cache. load),
      set_task = (\<lambda>ds. Inr t),
      stat_code_mapping = (\<lambda>ds source_code target_code level. Inr ds),
      split_by_patient = (\<lambda>ds ratios seed. Inr (ds, no_samples, no_samples))\<rparr>"

definition two_patients :: "unit sample_dataset" where
  "two_patients =
     \<lparr>samples = [\<lparr>patient_id = ''p1'', label = 1, features = ()\<rparr>,
                 \<lparr>patient_id = ''p1'', label = 0, features = ()\<rparr>,
                 \<lparr>patient_id = ''p2'', label = 0, features = ()\<rparr>,
                 \<lparr>patient_id = ''p2'', label = 0, features = ()\<rparr>],
      input_info = Some (PyDict [(''conditions'', PyDict [(''vocab'', PyList [PyInt 0, PyInt 1])]),
                                 (''drugs'', PyDict [(''vocab'', PyList [])])])\<rparr>"

definition no_vocab :: "unit sample_dataset" where
  "no_vocab =
     \<lparr>samples = [\<lparr>patient_id = ''p1'', label = 0, features = ()\<rparr>],
      input_info = Some (PyDict [(''conditions'', PyDict [])])\<rparr>"

definition cohort_160 :: "unit sample_dataset" where
  \<comment> \<open>160 samples, 23 of them with label 1\<close>
  "cohort_160 =
     \<lparr>samples = replicate 23 \<lparr>patient_id = ''p1'', label = 1, features = ()\<rparr>
                 @ replicate 137 \<lparr>patient_id = ''p2'', label = 0, features = ()\<rparr>,
      input_info = None\<rparr>"

text \<open>
  For the vocabulary step: whether a feature is missing from \<open>input_info\<close> (no such
  attribute, or the membership test for the key is false), and the size of its vocabulary
  when the feature's entry is a mapping whose \<open>vocab\<close> has a length.
\<close>

definition feature_missing :: "'f sample_dataset \<Rightarrow> string \<Rightarrow> bool" where
  "feature_missing t k =
     (case input_info t of
        None \<Rightarrow> True
      | Some info \<Rightarrow> py_contains k info = Inr False)"

definition vocab_size :: "'f sample_dataset \<Rightarrow> string \<Rightarrow> int option" where
  "vocab_size t k =
     (case input_info t of
        Some (PyDict d) \<Rightarrow>
          (case map_of d k of
             Some (PyDict f) \<Rightarrow>
               (case map_of f ''vocab'' of
                  Some v \<Rightarrow> (case py_len v of Inr n \<Rightarrow> Some n | Inl _ \<Rightarrow> None)
                | None \<Rightarrow> None)
           | _ \<Rightarrow> None)
      | _ \<Rightarrow> None)"

section \<open>The mathematics demonstration script\<close>

definition radians :: "real \<Rightarrow> real" where
  "radians d = d * pi / 180"

definition math_factorial :: "int \<Rightarrow> py_exn + int" where
  "math_factorial n =
     (if n < 0 then Inl (ValueError ''factorial() not defined for negative values'')
      else Inr (fact (nat n)))"

definition math_gcd :: "int \<Rightarrow> int \<Rightarrow> int" where
  "math_gcd a b = gcd a b"

text \<open>
  The decimal numeral that \<open>{x:.df}\<close> prints is \<open>fixed_digits x d / 10 ^ d\<close>: the
  multiple of \<open>10 ^ -d\<close> nearest to \<open>x\<close>, the even one of the two at a tie.
\<close>

definition fixed_digits :: "real \<Rightarrow> nat \<Rightarrow> int" where
  "fixed_digits x d =
     (let s = x * 10 ^ d; f = \<lfloor>s\<rfloor>; r = s - of_int f
      in if r < 1 / 2 then f else if 1 / 2 < r then f + 1 else if even f then f else f + 1)"

definition degree_sign :: string where
  "degree_sign = [CHR 0xC2, CHR 0xB0]"

definition math_main :: "unit run" where
  "math_main =
     seq (emit [[Txt (replicate 50 CHR ''='')],
                [Txt ''Mathematical Computations Demo''],
                [Txt (replicate 50 CHR ''='')]]) (\<lambda>_.
     (let angle = 45; angle_rad = radians (of_int angle) in
     seq (emit [[Txt (nl @ ''Trigonometric functions for ''), Num angle, Txt '' degrees:''],
                [Txt ''  sin('', Num angle, Txt (degree_sign @ '') = ''), Fix (sin angle_rad) 4],
                [Txt ''  cos('', Num angle, Txt (degree_sign @ '') = ''), Fix (cos angle_rad) 4],
                [Txt ''  tan('', Num angle, Txt (degree_sign @ '') = ''), Fix (tan angle_rad) 4]])
       (\<lambda>_.
     (let number = 10 in
     seq (emit [[Txt (nl @ ''Logarithmic and exponential functions:'')],
                [Txt ''  log('', Num number, Txt '') = '', Fix (ln (of_int number)) 4],
                [Txt ''  log10('', Num number, Txt '') = '', Fix (log 10 (of_int number)) 4],
                [Txt ''  exp(2) = '', Fix (exp 2) 4]]) (\<lambda>_.
     (let base = 4; exponent = 3 in
     seq (emit [[Txt (nl @ ''Power and roots:'')],
                [Txt ''  '', Num base, Txt ''^'', Num exponent, Txt '' = '',
                 Fix (of_int base powr of_int exponent) 4],
                [Txt ''  sqrt(16) = '', Fix (sqrt 16) 4],
                [Txt ''  cbrt(27) = '', Fix (27 powr (1 / 3)) 4],
                [Txt (nl @ ''Mathematical constants:'')],
                [Txt (''  '' @ [CHR 0xCF, CHR 0x80] @ '' (pi) = ''), Fix pi 6],
                [Txt ''  e = '', Fix (exp 1) 6],
                [Txt (''  '' @ [CHR 0xCF, CHR 0x84] @ '' (tau) = ''), Fix (2 * pi) 6]]) (\<lambda>_.
     (let value = 7.3 in
     seq (emit [[Txt (nl @ ''Rounding functions for ''), Repr value, Txt '':''],
                [Txt ''  ceil('', Repr value, Txt '') = '', Num \<lceil>value\<rceil>],
                [Txt ''  floor('', Repr value, Txt '') = '', Num \<lfloor>value\<rfloor>]]) (\<lambda>_.
     (let n = 5 in
     seq (emit [[Txt (nl @ ''Factorial:'')]]) (\<lambda>_.
     seq (call (math_factorial n)) (\<lambda>factorial_n.
     seq (emit [[Txt ''  '', Num n, Txt ''! = '', Num factorial_n]]) (\<lambda>_.
     (let a = 48; b = 18 in
     seq (emit [[Txt (nl @ ''Greatest Common Divisor:'')],
                [Txt ''  gcd('', Num a, Txt '', '', Num b, Txt '') = '', Num (math_gcd a b)]])
       (\<lambda>_.
     (let x = 1 in
     emit [[Txt (nl @ ''Hyperbolic functions for x=''), Num x, Txt '':''],
           [Txt ''  sinh('', Num x, Txt '') = '', Fix (sinh (of_int x)) 4],
           [Txt ''  cosh('', Num x, Txt '') = '', Fix (cosh (of_int x)) 4],
           [Txt ''  tanh('', Num x, Txt '') = '', Fix (tanh (of_int x)) 4],
           [Txt (nl @ replicate 50 CHR ''='')],
           [Txt ''Computations completed successfully!''],
           [Txt (replicate 50 CHR ''='')]]))))))))))))))))"

section \<open>Sequencing lemmas\<close>

lemma seq_emit: "seq (emit ls) f = (ls @ fst (f ()), snd (f ()))"
  by (simp add: seq_def emit_def split: prod.splits)

lemma seq_call_Inl: "seq (call (Inl e)) f = ([], Inl e)"
  by (simp add: seq_def call_def)

lemma seq_call_Inr: "seq (call (Inr x)) f = f x"
  by (simp add: seq_def call_def split: prod.splits)

lemma seq_Inl: "seq (out, Inl e) f = (out, Inl e)"
  by (simp add: seq_def)

lemma seq_Inr: "seq (out, Inr x) f = (out @ fst (f x), snd (f x))"
  by (simp add: seq_def split: prod.splits)

lemma seq_raises: "snd m = Inl e \<Longrightarrow> seq m f = (fst m, Inl e)"
  by (cases m) (simp add: seq_def)

lemma seq_returns: "snd m = Inr x \<Longrightarrow> seq m f = (fst m @ fst (f x), snd (f x))"
  by (cases m) (simp add: seq_def split: prod.splits)

lemma fst_emit: "fst (emit ls) = ls"
  by (simp add: emit_def)

lemma snd_emit: "snd (emit ls) = Inr ()"
  by (simp add: emit_def)

section \<open>Rounding to a float\<close>

lemma round_even_near: "\<bar>of_int (round_even s) - s\<bar> \<le> 1 / 2"
  unfolding round_even_def Let_def by (auto simp: abs_le_iff)

lemma float_exponent_eq:
  assumes "2 powi k \<le> \<bar>x\<bar>" and "\<bar>x\<bar> < 2 powi (k + 1)"
  shows "float_exponent x = max (k - 52) (- 1074)"
proof -
  have "(0::real) < 2 powi k" by simp
  then have pos: "0 < \<bar>x\<bar>" using assms(1) by linarith
  have a: "(2::real) powr real_of_int k = 2 powi k"
    by (simp add: powr_real_of_int')
  have b: "(2::real) powr (real_of_int k + 1) = 2 powi (k + 1)"
    using powr_real_of_int'[of "2::real" "k + 1"] by simp
  have "\<lfloor>log 2 \<bar>x\<bar>\<rfloor> = k"
    using assms pos by (simp add: floor_log_eq_powr_iff a b)
  then show ?thesis by (simp add: float_exponent_def)
qed

lemma two_powi_floor_log:
  assumes "x \<noteq> 0"
  shows "2 powi \<lfloor>log 2 \<bar>x\<bar>\<rfloor> \<le> \<bar>x\<bar>"
proof -
  have pos: "0 < \<bar>x\<bar>" using assms by simp
  have "2 powr (real_of_int \<lfloor>log 2 \<bar>x\<bar>\<rfloor>) \<le> \<bar>x\<bar>"
    using floor_log_eq_powr_iff[OF pos, of 2 "\<lfloor>log 2 \<bar>x\<bar>\<rfloor>"] by simp
  then show ?thesis by (simp add: powr_real_of_int')
qed

lemma ulp_bound:
  assumes "x \<noteq> 0"
  shows "2 powi float_exponent x \<le> \<bar>x\<bar> * 2 powi (- 52) + 2 powi (- 1074)"
proof (cases "\<lfloor>log 2 \<bar>x\<bar>\<rfloor> - 52 \<ge> - 1074")
  case True
  then have "float_exponent x = \<lfloor>log 2 \<bar>x\<bar>\<rfloor> - 52"
    by (simp add: float_exponent_def)
  then have "(2::real) powi float_exponent x = 2 powi (\<lfloor>log 2 \<bar>x\<bar>\<rfloor> + (- 52))"
    by simp
  also have "\<dots> = 2 powi \<lfloor>log 2 \<bar>x\<bar>\<rfloor> * 2 powi (- 52)"
    by (rule power_int_add) simp
  also have "\<dots> \<le> \<bar>x\<bar> * 2 powi (- 52)"
    by (rule mult_right_mono[OF two_powi_floor_log[OF assms]]) simp
  also have "\<dots> \<le> \<bar>x\<bar> * 2 powi (- 52) + 2 powi (- 1074)"
    by simp
  finally show ?thesis .
next
  case False
  then have "float_exponent x = - 1074"
    by (simp add: float_exponent_def)
  then show ?thesis
    by (simp add: power_int_minus)
qed

text \<open>Rounding moves a number by at most half a unit in its last place.\<close>

lemma round_float_near:
  "\<bar>round_float x - x\<bar> \<le> \<bar>x\<bar> * 2 powi (- 53) + 2 powi (- 1075)"
proof (cases "x = 0")
  case True
  then show ?thesis
    by (simp add: round_float_def power_int_minus)
next
  case False
  define u :: real where "u = 2 powi float_exponent x"
  have u: "0 < u" by (simp add: u_def)
  have "round_float x - x = (of_int (round_even (x / u)) - x / u) * u"
    using False u by (simp add: round_float_def u_def field_simps)
  then have "\<bar>round_float x - x\<bar> = \<bar>of_int (round_even (x / u)) - x / u\<bar> * u"
    using u by (simp add: abs_mult)
  also have "\<dots> \<le> 1 / 2 * u"
    using round_even_near[of "x / u"] u by (simp add: mult_right_mono)
  also have "\<dots> \<le> 1 / 2 * (\<bar>x\<bar> * 2 powi (- 52) + 2 powi (- 1074))"
    using ulp_bound[OF False] by (simp add: u_def)
  also have "\<dots> = \<bar>x\<bar> * 2 powi (- 53) + 2 powi (- 1075)"
    by (simp add: power_int_minus field_simps)
  finally show ?thesis .
qed

lemma round_float_close:
  assumes "\<bar>x\<bar> \<le> 1000"
  shows "\<bar>round_float x - x\<bar> \<le> 1 / 1000000000000"
proof -
  have "\<bar>x\<bar> * 2 powi (- 53) + 2 powi (- 1075) \<le> 1000 * 2 powi (- 53) + 2 powi (- 53)"
    using assms by (intro add_mono mult_right_mono power_int_increasing) simp_all
  also have "\<dots> \<le> 1 / 1000000000000"
    by (simp add: power_int_minus)
  finally show ?thesis
    using round_float_near[of x] by linarith
qed

lemma float_max_large: "2000 \<le> float_max"
proof -
  have "(2000::real) \<le> 1 * 2 ^ 11" by simp
  also have "\<dots> \<le> (2 ^ 53 - 1) * 2 ^ 971"
    by (intro mult_mono power_increasing) simp_all
  finally show ?thesis by (simp add: float_max_def)
qed

lemma to_float_finite:
  assumes "\<bar>x\<bar> \<le> 1000"
  shows "to_float x = Finite (round_float x)"
proof -
  have "\<bar>round_float x\<bar> \<le> float_max"
    using round_float_close[OF assms] assms float_max_large by linarith
  then show ?thesis
    by (auto simp add: to_float_def Let_def)
qed

text \<open>A quotient beyond the largest float raises.\<close>

lemma py_truediv_overflow:
  "py_truediv (10 ^ 400) 1 =
     Inl (OverflowError ''integer division result too large for a float'')"
proof -
  have big: "float_max * 2 < 10 ^ 400"
    by (simp add: float_max_def)
  have "\<bar>round_float (10 ^ 400) - 10 ^ 400\<bar> \<le> \<bar>10 ^ 400\<bar> * 2 powi (- 53) + 2 powi (- 1075)"
    by (rule round_float_near)
  also have "\<dots> \<le> 10 ^ 400 * (1 / 4) + 10 ^ 400 * (1 / 4)"
    by (intro add_mono) (simp_all add: power_int_minus)
  finally have "10 ^ 400 / 2 \<le> round_float (10 ^ 400)"
    by linarith
  then have "float_max < round_float (10 ^ 400)"
    using big by linarith
  then show ?thesis
    by (simp add: py_truediv_def to_float_def Let_def)
qed

text \<open>Evaluating the rounding at a number whose binade is known.\<close>

lemma round_float_eval:
  assumes "2 powi k \<le> \<bar>x\<bar>" and "\<bar>x\<bar> < 2 powi (k + 1)" and "e = max (k - 52) (- 1074)"
  shows "round_float x = of_int (round_even (x / 2 powi e)) * 2 powi e"
proof -
  have "(0::real) < 2 powi k" by simp
  then have "0 < \<bar>x\<bar>" using assms(1) by linarith
  then have "x \<noteq> 0" by simp
  then show ?thesis
    using float_exponent_eq[OF assms(1,2)] assms(3) by (simp add: round_float_def)
qed

text \<open>
  A quotient of a part by the whole is a float between 0 and 1, and its percentage is a
  finite float very close to the exact percentage.
\<close>

lemma py_truediv_share:
  assumes "0 \<le> a" and "a \<le> b" and "0 < b"
  shows "py_truediv a b = Inr (round_float (real_of_int a / real_of_int b))"
    and "\<bar>round_float (real_of_int a / real_of_int b)\<bar> \<le> 2"
    and "\<bar>round_float (real_of_int a / real_of_int b) * 100
            - real_of_int a / real_of_int b * 100\<bar> \<le> 1 / 10000000000"
proof -
  define q where "q = real_of_int a / real_of_int b"
  have q: "0 \<le> q" "q \<le> 1" using assms by (simp_all add: q_def)
  then have small: "\<bar>q\<bar> \<le> 1000" by simp
  have near: "\<bar>round_float q - q\<bar> \<le> 1 / 1000000000000"
    by (rule round_float_close[OF small])
  show "py_truediv a b = Inr (round_float (real_of_int a / real_of_int b))"
    using assms(3) to_float_finite[OF small] by (simp add: py_truediv_def q_def)
  show "\<bar>round_float (real_of_int a / real_of_int b)\<bar> \<le> 2"
    using near q unfolding q_def by linarith
  have "\<bar>round_float q * 100 - q * 100\<bar> \<le> 1 / 10000000000"
    using near by linarith
  then show "\<bar>round_float (real_of_int a / real_of_int b) * 100
            - real_of_int a / real_of_int b * 100\<bar> \<le> 1 / 10000000000"
    unfolding q_def .
qed

lemma float_mul_percent:
  assumes "\<bar>q\<bar> \<le> 2"
  shows "float_mul q 100 = Finite (round_float (q * 100))"
    and "\<bar>round_float (q * 100) - q * 100\<bar> \<le> 1 / 1000000000000"
proof -
  have small: "\<bar>q * 100\<bar> \<le> 1000" using assms by (simp add: abs_mult)
  show "float_mul q 100 = Finite (round_float (q * 100))"
    by (simp add: float_mul_def to_float_finite[OF small])
  show "\<bar>round_float (q * 100) - q * 100\<bar> \<le> 1 / 1000000000000"
    by (rule round_float_close[OF small])
qed

section \<open>The steps of the pipeline, one at a time\<close>

lemma step1_raises:
  assumes "MIMIC4Dataset env ''/path/to/mimiciv/''
             [''diagnoses_icd'', ''procedures_icd'', ''prescriptions''] True False = Inl e"
  shows "step1 env =
    ([[Txt (nl @ ''[Step 1] Loading MIMIC-IV Dataset...'')],
      [Txt (replicate 80 CHR ''-'')]], Inl e)"
  using assms by (simp add: step1_def seq_emit seq_call_Inl)

lemma step1_returns:
  assumes "MIMIC4Dataset env ''/path/to/mimiciv/''
             [''diagnoses_icd'', ''procedures_icd'', ''prescriptions''] True False = Inr ds"
  shows "step1 env =
    ([[Txt (nl @ ''[Step 1] Loading MIMIC-IV Dataset...'')],
      [Txt (replicate 80 CHR ''-'')],
      [Txt (check_mark @ '' Dataset loaded successfully'')],
      [Txt ''  - Number of patients: '', Num (int (length (patients ds)))],
      [Txt ''  - Tables loaded: '', Str (join '', '' (tables ds))]], Inr ds)"
  using assms by (simp add: step1_def seq_emit seq_call_Inr ret_def)

lemma step2_returns:
  assumes "set_task env ds = Inr t0"
  shows "step2 env ds =
    ([[Txt (nl @ ''[Step 2] Applying In-Hospital Mortality Prediction Task...'')],
      [Txt (replicate 80 CHR ''-'')],
      [Txt (check_mark @ '' Task applied successfully'')],
      [Txt ''  - Task type: In-Hospital Mortality Prediction''],
      [Txt ''  - Number of samples: '', Num (len t0)]], Inr t0)"
  using assms by (simp add: step2_def seq_emit seq_call_Inr ret_def)

text \<open>
  Step 3 hands the result of the first mapping (drug codes) to the second (diagnosis and
  procedure codes), and stops at the first mapping when it raises.
\<close>

lemma step3_returns:
  assumes "stat_code_mapping env t0 ''NDC'' ''ATC'' (Some 3) = Inr t1"
    and "stat_code_mapping env t1 ''ICD9CM'' ''ICD10CM'' None = Inr t"
  shows "step3 env t0 =
    ([[Txt (nl @ ''[Step 3] Preprocessing - Mapping Medical Codes...'')],
      [Txt (replicate 80 CHR ''-'')],
      [Txt ''  a) Mapping NDC drug codes to ATC Level 3...''],
      [Txt (''     '' @ check_mark @ '' NDC codes mapped to ATC Level 3'')],
      [Txt ''  b) Mapping ICD9CM codes to ICD10CM...''],
      [Txt (''     '' @ check_mark @ '' ICD9CM codes mapped to ICD10CM'')]], Inr t)"
  using assms by (simp add: step3_def seq_emit seq_call_Inr ret_def)

lemma step3_first_mapping_raises:
  assumes "stat_code_mapping env t0 ''NDC'' ''ATC'' (Some 3) = Inl e"
  shows "step3 env t0 =
    ([[Txt (nl @ ''[Step 3] Preprocessing - Mapping Medical Codes...'')],
      [Txt (replicate 80 CHR ''-'')],
      [Txt ''  a) Mapping NDC drug codes to ATC Level 3...'']], Inl e)"
  using assms by (simp add: step3_def seq_emit seq_call_Inl)

lemma size_line_empty:
  "len task_ds = 0 \<Longrightarrow>
     size_line pre part task_ds = ([], Inl (ZeroDivisionError ''division by zero''))"
  by (simp add: size_line_def py_truediv_def seq_call_Inl)

lemma step4_empty:
  assumes "split_by_patient env t [0.8, 0.1, 0.1] 42 = Inr (train_ds, val_ds, test_ds)"
    and "len t = 0"
  shows "step4 env t =
    ([[Txt (nl @ ''[Step 4] Splitting Data into Train/Validation/Test Sets...'')],
      [Txt (replicate 80 CHR ''-'')],
      [Txt (check_mark @ '' Data split completed'')]],
     Inl (ZeroDivisionError ''division by zero''))"
  using assms(1)
  by (simp add: step4_def seq_emit seq_call_Inr size_line_empty[OF assms(2)] seq_Inl)

lemma size_line_returns:
  assumes "0 \<le> len part" and "len part \<le> len task_ds" and "0 < len task_ds"
  shows "snd (size_line pre part task_ds) = Inr ()"
  by (simp add: size_line_def py_truediv_share(1)[OF assms] seq_call_Inr snd_emit)

lemma step4_returns:
  assumes "split_by_patient env t [0.8, 0.1, 0.1] 42 = Inr (train_ds, val_ds, test_ds)"
    and "0 < len t"
    and "len train_ds \<le> len t" and "len val_ds \<le> len t" and "len test_ds \<le> len t"
  shows "snd (step4 env t) = Inr (train_ds, val_ds, test_ds)"
proof -
  have nn: "0 \<le> len d" for d :: "'a sample_dataset"
    by (simp add: len_def)
  note a = size_line_returns[OF nn assms(3) assms(2)]
    and b = size_line_returns[OF nn assms(4) assms(2)]
    and c = size_line_returns[OF nn assms(5) assms(2)]
  show ?thesis
    using assms(1)
    by (simp add: step4_def seq_emit seq_call_Inr seq_returns[OF a] seq_returns[OF b]
        seq_returns[OF c] ret_def)
qed

lemma label_distribution_empty: "len t = 0 \<Longrightarrow> label_distribution t = ([], Inr ())"
  by (simp add: label_distribution_def ret_def)

lemma step6_returns:
  "snd (label_distribution t) = Inr () \<Longrightarrow> snd (step6 t train_ds val_ds test_ds) = Inr ()"
  by (simp add: step6_def seq_emit seq_returns snd_emit)

lemma main_load_raises:
  assumes "MIMIC4Dataset env ''/path/to/mimiciv/''
             [''diagnoses_icd'', ''procedures_icd'', ''prescriptions''] True False = Inl e"
  shows "main env =
    ([[Txt (replicate 80 CHR ''='')],
      [Txt ''MIMIC-IV Mortality Prediction Dataset Creation Pipeline''],
      [Txt (replicate 80 CHR ''='')],
      [Txt (nl @ ''[Step 1] Loading MIMIC-IV Dataset...'')],
      [Txt (replicate 80 CHR ''-'')]], Inl e)"
  by (simp add: main_def seq_emit step1_raises[OF assms] seq_Inl)

lemma main_empty:
  assumes "MIMIC4Dataset env ''/path/to/mimiciv/''
             [''diagnoses_icd'', ''procedures_icd'', ''prescriptions''] True False = Inr ds"
    and "set_task env ds = Inr t0"
    and "stat_code_mapping env t0 ''NDC'' ''ATC'' (Some 3) = Inr t1"
    and "stat_code_mapping env t1 ''ICD9CM'' ''ICD10CM'' None = Inr t"
    and "split_by_patient env t [0.8, 0.1, 0.1] 42 = Inr (train_ds, val_ds, test_ds)"
    and "len t = 0"
  shows "main env =
    ([[Txt (replicate 80 CHR ''='')],
      [Txt ''MIMIC-IV Mortality Prediction Dataset Creation Pipeline''],
      [Txt (replicate 80 CHR ''='')],
      [Txt (nl @ ''[Step 1] Loading MIMIC-IV Dataset...'')],
      [Txt (replicate 80 CHR ''-'')],
      [Txt (check_mark @ '' Dataset loaded successfully'')],
      [Txt ''  - Number of patients: '', Num (int (length (patients ds)))],
      [Txt ''  - Tables loaded: '', Str (join '', '' (tables ds))],
      [Txt (nl @ ''[Step 2] Applying In-Hospital Mortality Prediction Task...'')],
      [Txt (replicate 80 CHR ''-'')],
      [Txt (check_mark @ '' Task applied successfully'')],
      [Txt ''  - Task type: In-Hospital Mortality Prediction''],
      [Txt ''  - Number of samples: '', Num (len t0)],
      [Txt (nl @ ''[Step 3] Preprocessing - Mapping Medical Codes...'')],
      [Txt (replicate 80 CHR ''-'')],
      [Txt ''  a) Mapping NDC drug codes to ATC Level 3...''],
      [Txt (''     '' @ check_mark @ '' NDC codes mapped to ATC Level 3'')],
      [Txt ''  b) Mapping ICD9CM codes to ICD10CM...''],
      [Txt (''     '' @ check_mark @ '' ICD9CM codes mapped to ICD10CM'')],
      [Txt (nl @ ''[Step 4] Splitting Data into Train/Validation/Test Sets...'')],
      [Txt (replicate 80 CHR ''-'')],
      [Txt (check_mark @ '' Data split completed'')]],
     Inl (ZeroDivisionError ''division by zero''))"
  by (simp add: main_def seq_emit step1_returns[OF assms(1)] step2_returns[OF assms(2)]
      step3_returns[OF assms(3,4)] step4_empty[OF assms(5,6)] seq_Inl seq_Inr)

lemma script_cases:
  assumes "snd (main env) = Inl e"
  shows "script env =
    (if isinstance e ''FileNotFoundError'' then (fst (main env) @ data_not_found e, None)
     else if isinstance e ''ImportError'' then (fst (main env) @ library_missing e, None)
     else if isinstance e ''Exception'' then (fst (main env) @ unexpected e, Some e)
     else (fst (main env), Some e))"
  using assms by (cases "main env") (simp add: script_def)

lemma differs_from_replicate: "c \<noteq> d \<Longrightarrow> d # xs \<noteq> replicate n c"
  by (cases n) auto

section \<open>The label distribution of Step 6\<close>

lemma fixed_digits_between:
  assumes "of_int k \<le> x * 10 ^ d" and "x * 10 ^ d < of_int k + 1 / 2"
  shows "fixed_digits x d = k"
proof -
  have "\<lfloor>x * 10 ^ d\<rfloor> = k"
    using assms by (intro floor_unique) auto
  then show ?thesis
    using assms by (simp add: fixed_digits_def Let_def)
qed


lemma sum_binary_labels:
  "\<forall>s\<in>set xs. label s = 0 \<or> label s = 1 \<Longrightarrow>
     sum_list (map label xs) = int (length (filter (\<lambda>s. label s = 1) xs))"
  by (induction xs) auto

text \<open>
  C4. For a non-empty sample collection whose labels are binary (0 or 1, as the data model
  has them), the label-distribution block prints two lines. The first has the mortality
  count, which is the number of samples with label 1, and the rate: the float that
  count / total * 100 evaluates to, which is within one billionth of the exact value.
  The second has the survived count, which is the total minus the mortality count. Both
  lines are part of what Step 6 prints.
\<close>

theorem mortality_rate_printed:
  assumes "samples t \<noteq> []" and "\<forall>s\<in>set (samples t). label s = 0 \<or> label s = 1"
  shows "let total = int (length (samples t));
             died = int (length (filter (\<lambda>s. label s = 1) (samples t)));
             rate = round_float (round_float (real_of_int died / real_of_int total) * 100)
         in label_distribution t =
              ([[Txt ''    - Mortality cases:         '', IntR died 6,
                 Txt '' ('', Fix rate 2, Txt ''%)''],
                [Txt ''    - Survived cases:          '', IntR (total - died) 6,
                 Txt '' ('', Fix (round_float (100 - rate)) 2, Txt ''%)'']], Inr ())
            \<and> \<bar>rate - real_of_int died / real_of_int total * 100\<bar> \<le> 1 / 1000000000
            \<and> set (fst (label_distribution t)) \<subseteq> set (fst (step6 t train_ds val_ds test_ds))"
proof -
  define total where "total = int (length (samples t))"
  define died where "died = int (length (filter (\<lambda>s. label s = 1) (samples t)))"
  define q where "q = round_float (real_of_int died / real_of_int total)"
  define rate where "rate = round_float (q * 100)"
  have pos: "0 < total" using assms(1) by (simp add: total_def)
  have d0: "0 \<le> died" by (simp add: died_def)
  have d1: "died \<le> total" by (simp add: died_def total_def)
  have sum: "sum_list (map label (samples t)) = died"
    using sum_binary_labels[OF assms(2)] by (simp add: died_def)
  note share = py_truediv_share[OF d0 d1 pos, folded q_def]
  note pct = float_mul_percent[OF share(2), folded rate_def]
  define r where "r = real_of_int died / real_of_int total"
  define x where "x = r * 100"
  have "0 \<le> r" "r \<le> 1"
    using d0 d1 pos by (simp_all add: r_def)
  then have x: "0 \<le> x" "x \<le> 100"
    unfolding x_def by linarith+
  have near: "\<bar>rate - x\<bar> \<le> 1 / 1000000000"
    using pct(2) share(3) unfolding x_def r_def by linarith
  have "\<bar>100 - rate\<bar> \<le> 1000"
    using near x by linarith
  then have sub: "float_sub 100 (Finite rate) = Finite (round_float (100 - rate))"
    by (simp add: float_sub_def to_float_finite)
  have ld: "label_distribution t =
              ([[Txt ''    - Mortality cases:         '', IntR died 6,
                 Txt '' ('', Fix rate 2, Txt ''%)''],
                [Txt ''    - Survived cases:          '', IntR (total - died) 6,
                 Txt '' ('', Fix (round_float (100 - rate)) 2, Txt ''%)'']], Inr ())"
    using pos
    by (simp add: label_distribution_def Let_def len_def sum share(1) pct(1) sub seq_call_Inr
        emit_def fix_float_def flip: total_def)
  then have "snd (label_distribution t) = Inr ()" by simp
  then have incl: "set (fst (label_distribution t)) \<subseteq> set (fst (step6 t train_ds val_ds test_ds))"
    by (auto simp add: step6_def seq_emit seq_returns)
  show ?thesis
    using ld near incl unfolding Let_def total_def died_def q_def rate_def x_def r_def by blast
qed

text \<open>
  At 160 samples with 23 deaths the exact rate is 14.375, the float is just below it,
  and the line reads 14.37; the survived share is the float 85.625, which reads 85.62.
\<close>

lemma round_float_23_160: "round_float (23 / 160) = 5179139571476070 / 2 ^ 55"
proof -
  have "round_float (23 / 160) = of_int (round_even ((23 / 160) / 2 powi (- 55))) * 2 powi (- 55)"
    by (rule round_float_eval[where k = "- 3"]) (simp_all add: power_int_minus)
  also have "round_even ((23 / 160) / 2 powi (- 55)) = 5179139571476070"
    by (simp add: round_even_def Let_def power_int_minus)
  finally show ?thesis by (simp add: power_int_minus)
qed

lemma round_float_rate_23_160:
  "round_float (5179139571476070 / 2 ^ 55 * 100) = 8092405580431359 / 2 ^ 49"
proof -
  have "round_float (5179139571476070 / 2 ^ 55 * 100) =
          of_int (round_even ((5179139571476070 / 2 ^ 55 * 100) / 2 powi (- 49))) * 2 powi (- 49)"
    by (rule round_float_eval[where k = 3]) (simp_all add: power_int_minus)
  also have "round_even ((5179139571476070 / 2 ^ 55 * 100) / 2 powi (- 49)) = 8092405580431359"
    by (simp add: round_even_def Let_def power_int_minus)
  finally show ?thesis by (simp add: power_int_minus)
qed

lemma round_float_survived_23_160:
  "round_float (100 - 8092405580431359 / 2 ^ 49) = 685 / 8"
proof -
  have "round_float (100 - 8092405580431359 / 2 ^ 49) =
          of_int (round_even ((100 - 8092405580431359 / 2 ^ 49) / 2 powi (- 46))) * 2 powi (- 46)"
    by (rule round_float_eval[where k = 6]) (simp_all add: power_int_minus)
  also have "round_even ((100 - 8092405580431359 / 2 ^ 49) / 2 powi (- 46)) = 6025323720212480"
    by (simp add: round_even_def Let_def power_int_minus)
  finally show ?thesis by (simp add: power_int_minus)
qed

theorem mortality_rate_printed_witness:
  "label_distribution cohort_160 =
     ([[Txt ''    - Mortality cases:         '', IntR 23 6,
        Txt '' ('', Fix (8092405580431359 / 2 ^ 49) 2, Txt ''%)''],
       [Txt ''    - Survived cases:          '', IntR 137 6,
        Txt '' ('', Fix (685 / 8) 2, Txt ''%)'']],
      Inr ())
   \<and> fixed_digits (8092405580431359 / 2 ^ 49) 2 = 1437
   \<and> fixed_digits (685 / 8) 2 = 8562"
proof -
  have h1: "samples cohort_160 \<noteq> []"
    by (simp add: cohort_160_def)
  have h2: "\<forall>s\<in>set (samples cohort_160). label s = 0 \<or> label s = 1"
    by (auto simp add: cohort_160_def)
  have n: "length (samples cohort_160) = 160"
    "length (filter (\<lambda>s. label s = 1) (samples cohort_160)) = 23"
    by (simp_all add: cohort_160_def)
  have q: "round_float (real_of_int (int 23) / real_of_int (int 160)) = 5179139571476070 / 2 ^ 55"
    using round_float_23_160 by simp
  have a: "label_distribution cohort_160 =
     ([[Txt ''    - Mortality cases:         '', IntR 23 6,
        Txt '' ('', Fix (8092405580431359 / 2 ^ 49) 2, Txt ''%)''],
       [Txt ''    - Survived cases:          '', IntR 137 6,
        Txt '' ('', Fix (685 / 8) 2, Txt ''%)'']],
      Inr ())"
    using mortality_rate_printed[OF h1 h2]
    unfolding Let_def n q round_float_rate_23_160 round_float_survived_23_160
    by simp
  have b: "fixed_digits (8092405580431359 / 2 ^ 49) 2 = 1437"
    by (rule fixed_digits_between) simp_all
  have c: "fixed_digits (685 / 8) 2 = 8562"
    by (simp add: fixed_digits_def Let_def)
  show ?thesis using a b c by blast
qed

section \<open>The handlers of the entry point\<close>

text \<open>
  C6. When the data-loading call raises a not-found error, the script prints everything
  \<open>main\<close> had printed, then the "data not found" diagnostic, and ends normally: no
  exception leaves the script.
\<close>

theorem not_found_is_reported:
  assumes "MIMIC4Dataset env ''/path/to/mimiciv/''
             [''diagnoses_icd'', ''procedures_icd'', ''prescriptions''] True False = Inl e"
    and "isinstance e ''FileNotFoundError''"
  shows "script env = (fst (main env) @ data_not_found e, None)
       \<and> [Txt (nl @ cross_mark @ '' Error: MIMIC-IV data not found!'')]
            \<in> set (fst (script env))
       \<and> snd (script env) = None"
proof -
  have "snd (main env) = Inl e"
    by (simp add: main_load_raises[OF assms(1)])
  then have s: "script env = (fst (main env) @ data_not_found e, None)"
    using assms(2) by (simp add: script_cases)
  then show ?thesis
    by (simp add: data_not_found_def)
qed

theorem not_found_is_reported_witness:
  "script (stub (Inl (FileNotFoundError ''/path/to/mimiciv/'')) no_samples) =
     ([[Txt (replicate 80 CHR ''='')],
       [Txt ''MIMIC-IV Mortality Prediction Dataset Creation Pipeline''],
       [Txt (replicate 80 CHR ''='')],
       [Txt (nl @ ''[Step 1] Loading MIMIC-IV Dataset...'')],
       [Txt (replicate 80 CHR ''-'')]]
      @ data_not_found (FileNotFoundError ''/path/to/mimiciv/''), None)"
proof -
  have h1: "MIMIC4Dataset (stub (Inl (FileNotFoundError ''/path/to/mimiciv/'')) no_samples)
              ''/path/to/mimiciv/'' [''diagnoses_icd'', ''procedures_icd'', ''prescriptions'']
              True False = Inl (FileNotFoundError ''/path/to/mimiciv/'')"
    by (simp add: stub_def)
  have h2: "isinstance (FileNotFoundError ''/path/to/mimiciv/'') ''FileNotFoundError''"
    by (simp add: isinstance_def FileNotFoundError_def)
  show ?thesis
    using not_found_is_reported[OF h1 h2] by (simp add: main_load_raises[OF h1])
qed

text \<open>
  C7, as amended. When \<open>main\<close> raises an exception \<open>e\<close>: for a not-found error or a
  dependency-missing error no exception leaves the script; for any other instance of
  \<open>Exception\<close> the script prints the "unexpected error" diagnostic and the same
  exception leaves it; an exception that is not an instance of \<open>Exception\<close> (such as
  a keyboard interrupt) leaves the script with nothing more printed.
\<close>

theorem handlers_by_class:
  assumes "snd (main env) = Inl e"
  shows "(isinstance e ''FileNotFoundError'' \<or> isinstance e ''ImportError''
            \<longrightarrow> snd (script env) = None)
       \<and> (\<not> isinstance e ''FileNotFoundError'' \<and> \<not> isinstance e ''ImportError''
            \<and> isinstance e ''Exception''
            \<longrightarrow> script env = (fst (main env) @ unexpected e, Some e))
       \<and> (\<not> isinstance e ''FileNotFoundError'' \<and> \<not> isinstance e ''ImportError''
            \<and> \<not> isinstance e ''Exception''
            \<longrightarrow> script env = (fst (main env), Some e))"
  by (simp add: script_cases[OF assms])

theorem handlers_by_class_witness:
  "snd (main (stub (Inl (ValueError ''bad table'')) no_samples)) = Inl (ValueError ''bad table'')
   \<and> script (stub (Inl (ValueError ''bad table'')) no_samples) =
       (fst (main (stub (Inl (ValueError ''bad table'')) no_samples))
          @ [[Txt (nl @ cross_mark @ '' Unexpected error occurred: ''), Str ''ValueError''],
             [Txt ''  '', Str ''bad table'']],
        Some (ValueError ''bad table''))"
proof -
  have m: "snd (main (stub (Inl (ValueError ''bad table'')) no_samples))
             = Inl (ValueError ''bad table'')"
    by (simp add: main_load_raises stub_def)
  show ?thesis
    using handlers_by_class[OF m] m
    by (simp add: isinstance_def ValueError_def unexpected_def type_name_def)
qed

text \<open>
  The claim as first stated fails for a keyboard interrupt during loading: it is neither a
  not-found nor a dependency-missing error, yet the script prints no diagnostic for it.
\<close>

theorem interrupt_counterexample:
  "snd (main (stub (Inl (KeyboardInterrupt [])) no_samples)) = Inl (KeyboardInterrupt [])
   \<and> \<not> isinstance (KeyboardInterrupt []) ''FileNotFoundError''
   \<and> \<not> isinstance (KeyboardInterrupt []) ''ImportError''
   \<and> script (stub (Inl (KeyboardInterrupt [])) no_samples) =
       (fst (main (stub (Inl (KeyboardInterrupt [])) no_samples)), Some (KeyboardInterrupt []))"
proof -
  have m: "snd (main (stub (Inl (KeyboardInterrupt [])) no_samples)) = Inl (KeyboardInterrupt [])"
    by (simp add: main_load_raises stub_def)
  have i: "\<not> isinstance (KeyboardInterrupt []) c"
    if "c \<notin> {''KeyboardInterrupt'', ''BaseException'', ''object''}" for c
    using that by (simp add: isinstance_def KeyboardInterrupt_def)
  show ?thesis
    unfolding script_cases[OF m] using m by (simp add: i)
qed

section \<open>An empty sample collection\<close>

text \<open>
  C9. When loading, labelling, both mappings and the split return, the labelled collection
  is empty and the mappings keep its length, \<open>main\<close> raises ZeroDivisionError in
  Step 4, right after the line "Data split completed": the success banner is never
  printed and the exception leaves the script. The label-distribution block of Step 6 is
  guarded: on that collection it prints nothing and returns, and Step 6 never raises.
\<close>

theorem empty_collection_stops_at_step4:
  assumes "MIMIC4Dataset env ''/path/to/mimiciv/''
             [''diagnoses_icd'', ''procedures_icd'', ''prescriptions''] True False = Inr ds"
    and "set_task env ds = Inr t0"
    and "stat_code_mapping env t0 ''NDC'' ''ATC'' (Some 3) = Inr t1"
    and "stat_code_mapping env t1 ''ICD9CM'' ''ICD10CM'' None = Inr t"
    and "split_by_patient env t [0.8, 0.1, 0.1] 42 = Inr (train_ds, val_ds, test_ds)"
    and "samples t0 = []" and "len t = len t0"
  shows "snd (main env) = Inl (ZeroDivisionError ''division by zero'')
       \<and> last (fst (main env)) = [Txt (check_mark @ '' Data split completed'')]
       \<and> success_banner \<notin> set (fst (main env))
       \<and> snd (script env) = Some (ZeroDivisionError ''division by zero'')
       \<and> label_distribution t = ([], Inr ())
       \<and> snd (step6 t train_ds val_ds test_ds) = Inr ()"
proof -
  have z: "len t = 0" using assms(6,7) by (simp add: len_def)
  note m = main_empty[OF assms(1-5) z]
  have r: "snd (main env) = Inl (ZeroDivisionError ''division by zero'')"
    by (simp add: m)
  have l: "last (fst (main env)) = [Txt (check_mark @ '' Data split completed'')]"
    by (simp add: m)
  have b: "success_banner \<notin> set (fst (main env))"
    by (simp add: m success_banner_def nl_def check_mark_def differs_from_replicate)
  have s: "snd (script env) = Some (ZeroDivisionError ''division by zero'')"
    unfolding script_cases[OF r] by (simp add: isinstance_def ZeroDivisionError_def)
  have d: "label_distribution t = ([], Inr ())"
    by (rule label_distribution_empty[OF z])
  have "snd (label_distribution t) = Inr ()" by (simp add: d)
  then have "snd (step6 t train_ds val_ds test_ds) = Inr ()" by (rule step6_returns)
  then show ?thesis using r l b s d by blast
qed

theorem empty_collection_stops_at_step4_witness:
  "snd (main (stub (Inr \<lparr>patients = [], tables = [''diagnoses_icd'']\<rparr>) no_samples))
     = Inl (ZeroDivisionError ''division by zero'')
   \<and> snd (script (stub (Inr \<lparr>patients = [], tables = [''diagnoses_icd'']\<rparr>) no_samples))
     = Some (ZeroDivisionError ''division by zero'')"
  using empty_collection_stops_at_step4
          [of "stub (Inr \<lparr>patients = [], tables = [''diagnoses_icd'']\<rparr>) no_samples"
              "\<lparr>patients = [], tables = [''diagnoses_icd'']\<rparr>"
              no_samples no_samples no_samples no_samples no_samples no_samples]
  by (simp add: stub_def no_samples_def)

section \<open>The vocabulary step\<close>

lemma vocab_line_missing:
  "feature_missing t k \<Longrightarrow>
     vocab_line t k pre = ([[Txt (pre @ ''N/A (not in input_info)'')]], Inr ())"
  by (auto simp add: feature_missing_def vocab_line_def emit_def seq_call_Inr
      split: option.splits)

lemma vocab_line_sized:
  assumes "vocab_size t k = Some n"
  shows "vocab_line t k pre = ([[Txt pre, IntR n 6, Txt '' unique codes'']], Inr ())"
proof -
  from assms obtain d f v where
    i: "input_info t = Some (PyDict d)" and e: "map_of d k = Some (PyDict f)"
    and v: "map_of f ''vocab'' = Some v" and l: "py_len v = Inr n"
    by (auto simp add: vocab_size_def split: option.splits pyobj.splits sum.splits)
  have "k \<in> fst ` set d"
    using e by (metis map_of_eq_None_iff option.distinct(1))
  then show ?thesis
    using i e v l by (simp add: vocab_line_def seq_call_Inr emit_def)
qed

lemma vocab_line_ok:
  assumes "feature_missing t k \<or> vocab_size t k \<noteq> None"
  shows "snd (vocab_line t k pre) = Inr ()"
  using assms vocab_line_missing[of t k pre] by (auto simp add: vocab_line_sized)

text \<open>A list as \<open>input_info\<close> has none of the keys: the feature is missing.\<close>

lemma list_info_missing: "input_info t = Some (PyList xs) \<Longrightarrow> feature_missing t k"
  by (simp add: feature_missing_def)

text \<open>
  In every other case the block raises: the condition of the amended claim is exactly the
  condition under which the step returns.
\<close>

lemma vocab_line_raises:
  assumes "\<not> feature_missing t k" and "vocab_size t k = None"
  shows "\<exists>e. snd (vocab_line t k pre) = Inl e"
proof (cases "input_info t")
  case None
  then show ?thesis using assms(1) by (simp add: feature_missing_def)
next
  case (Some info)
  show ?thesis
  proof (cases info)
    case PyNone
    then show ?thesis using Some by (simp add: vocab_line_def seq_call_Inl)
  next
    case (PyInt n)
    then show ?thesis using Some by (simp add: vocab_line_def seq_call_Inl)
  next
    case (PyList xs)
    then show ?thesis using Some assms(1) by (simp add: feature_missing_def)
  next
    case (PyDict d)
    then have k: "k \<in> fst ` set d"
      using Some assms(1) by (simp add: feature_missing_def)
    then obtain entry where entry: "map_of d k = Some entry"
      by (metis map_of_eq_None_iff not_Some_eq)
    have "\<exists>e. snd (seq (call (py_getitem entry ''vocab''))
                  (\<lambda>vocab. seq (call (py_len vocab)) (\<lambda>vocab_size.
                     emit [[Txt pre, IntR vocab_size 6, Txt '' unique codes'']]))) = Inl e"
    proof (cases "py_getitem entry ''vocab''")
      case (Inl e)
      then show ?thesis by (simp add: seq_call_Inl)
    next
      case (Inr v)
      then obtain f where f: "entry = PyDict f" "map_of f ''vocab'' = Some v"
        by (cases entry) (auto split: option.splits)
      have "\<exists>e. py_len v = Inl e"
        using assms(2) Some PyDict entry f
        by (cases "py_len v") (simp_all add: vocab_size_def)
      then show ?thesis
        using Inr by (auto simp add: seq_call_Inr seq_call_Inl)
    qed
    then show ?thesis
      using Some PyDict k entry by (simp add: vocab_line_def seq_call_Inr)
  qed
qed

lemma step5_returns_only_if:
  assumes "snd (step5 t) = Inr ()"
  shows "snd (vocab_line t ''conditions'' ''    - Conditions (Diagnoses):  '') = Inr ()
       \<and> snd (vocab_line t ''procedures'' ''    - Procedures:              '') = Inr ()
       \<and> snd (vocab_line t ''drugs'' ''    - Drugs (Prescriptions):   '') = Inr ()"
proof -
  have c: "snd (vocab_line t ''conditions'' ''    - Conditions (Diagnoses):  '') = Inr ()"
  proof (cases "snd (vocab_line t ''conditions'' ''    - Conditions (Diagnoses):  '')")
    case (Inl e)
    then show ?thesis
      using assms by (simp add: step5_def seq_emit seq_raises[OF Inl])
  next
    case (Inr u)
    then show ?thesis by simp
  qed
  have p: "snd (vocab_line t ''procedures'' ''    - Procedures:              '') = Inr ()"
  proof (cases "snd (vocab_line t ''procedures'' ''    - Procedures:              '')")
    case (Inl e)
    then show ?thesis
      using assms by (simp add: step5_def seq_emit seq_returns[OF c] seq_raises[OF Inl])
  next
    case (Inr u)
    then show ?thesis by simp
  qed
  have d: "snd (vocab_line t ''drugs'' ''    - Drugs (Prescriptions):   '') = Inr ()"
  proof (cases "snd (vocab_line t ''drugs'' ''    - Drugs (Prescriptions):   '')")
    case (Inl e)
    then show ?thesis
      using assms
      by (simp add: step5_def seq_emit seq_returns[OF c] seq_returns[OF p] seq_raises[OF Inl])
  next
    case (Inr u)
    then show ?thesis by simp
  qed
  show ?thesis using c p d by blast
qed

lemma step5_raises_otherwise:
  assumes "k \<in> {''conditions'', ''procedures'', ''drugs''}"
    and "\<not> feature_missing t k" and "vocab_size t k = None"
  shows "\<exists>e. snd (step5 t) = Inl e"
proof (cases "snd (step5 t)")
  case (Inl e)
  then show ?thesis by blast
next
  case (Inr u)
  then have "snd (step5 t) = Inr ()" by simp
  note r = step5_returns_only_if[OF this]
  from assms(1) consider "k = ''conditions''" | "k = ''procedures''" | "k = ''drugs''"
    by blast
  then show ?thesis
  proof cases
    case 1
    then show ?thesis
      using vocab_line_raises[OF assms(2,3), of "''    - Conditions (Diagnoses):  ''"] r
      by auto
  next
    case 2
    then show ?thesis
      using vocab_line_raises[OF assms(2,3), of "''    - Procedures:              ''"] r
      by auto
  next
    case 3
    then show ?thesis
      using vocab_line_raises[OF assms(2,3), of "''    - Drugs (Prescriptions):   ''"] r
      by auto
  qed
qed

text \<open>
  C10, as amended. Provided that each of the three features is either missing (the
  collection has no \<open>input_info\<close>, or the test \<open>key in input_info\<close> is false) or has
  an entry that is a mapping whose \<open>vocab\<close> has a length, the vocabulary step does not
  raise; it prints the "N/A (not in input_info)" line for a missing feature and the size
  of the vocabulary for a present one.
\<close>

theorem vocabulary_step_reports:
  assumes "\<forall>k \<in> {''conditions'', ''procedures'', ''drugs''}.
             feature_missing t k \<or> vocab_size t k \<noteq> None"
  shows "snd (step5 t) = Inr ()
       \<and> (\<forall>(k, pre) \<in> {(''conditions'', ''    - Conditions (Diagnoses):  ''),
                        (''procedures'', ''    - Procedures:              ''),
                        (''drugs'', ''    - Drugs (Prescriptions):   '')}.
            (feature_missing t k \<longrightarrow>
               [Txt (pre @ ''N/A (not in input_info)'')] \<in> set (fst (step5 t)))
          \<and> (\<forall>n. vocab_size t k = Some n \<longrightarrow>
               [Txt pre, IntR n 6, Txt '' unique codes''] \<in> set (fst (step5 t))))"
proof -
  have c: "snd (vocab_line t ''conditions'' pre) = Inr ()"
    and p: "snd (vocab_line t ''procedures'' pre) = Inr ()"
    and d: "snd (vocab_line t ''drugs'' pre) = Inr ()" for pre
    using assms by (simp_all add: vocab_line_ok)
  have out: "fst (step5 t) =
      [[Txt (nl @ ''[Step 5] Feature Tokenization - Inspecting Vocabulary Statistics...'')],
       [Txt (replicate 80 CHR ''-'')],
       [Txt ''  Vocabulary Statistics:'']]
      @ fst (vocab_line t ''conditions'' ''    - Conditions (Diagnoses):  '')
      @ fst (vocab_line t ''procedures'' ''    - Procedures:              '')
      @ fst (vocab_line t ''drugs'' ''    - Drugs (Prescriptions):   '')
      @ [[Txt (nl @ ''  Note: PyHealth's Vocab class can be used for detailed inspection:'')],
         [Txt ''    - vocab.word2idx: mapping from codes to indices''],
         [Txt ''    - vocab.idx2word: mapping from indices to codes''],
         [Txt ''    - vocab.size(): total vocabulary size'']]"
    and res: "snd (step5 t) = Inr ()"
    by (simp_all add: step5_def seq_emit seq_returns[OF c] seq_returns[OF p] seq_returns[OF d]
        fst_emit snd_emit)
  have m: "feature_missing t k \<Longrightarrow>
             [Txt (pre @ ''N/A (not in input_info)'')] \<in> set (fst (vocab_line t k pre))"
    for k pre by (simp add: vocab_line_missing)
  have s: "vocab_size t k = Some n \<Longrightarrow>
             [Txt pre, IntR n 6, Txt '' unique codes''] \<in> set (fst (vocab_line t k pre))"
    for k pre n by (simp add: vocab_line_sized)
  have ic: "set (fst (vocab_line t ''conditions'' ''    - Conditions (Diagnoses):  ''))
              \<subseteq> set (fst (step5 t))"
    and ip: "set (fst (vocab_line t ''procedures'' ''    - Procedures:              ''))
              \<subseteq> set (fst (step5 t))"
    and idr: "set (fst (vocab_line t ''drugs'' ''    - Drugs (Prescriptions):   ''))
              \<subseteq> set (fst (step5 t))"
    unfolding out set_append by blast+
  have all: "(feature_missing t k \<longrightarrow>
               [Txt (pre @ ''N/A (not in input_info)'')] \<in> set (fst (step5 t)))
          \<and> (\<forall>n. vocab_size t k = Some n \<longrightarrow>
               [Txt pre, IntR n 6, Txt '' unique codes''] \<in> set (fst (step5 t)))"
    if "set (fst (vocab_line t k pre)) \<subseteq> set (fst (step5 t))" for k pre
    using that m[of k pre] s[of k _ pre] by blast
  show ?thesis
    apply (simp only: ball_simps case_prod_conv)
    using res all[OF ic] all[OF ip] all[OF idr] by blast
qed

theorem vocabulary_step_reports_witness:
  "snd (step5 two_patients) = Inr ()
   \<and> [Txt ''    - Conditions (Diagnoses):  '', IntR 2 6, Txt '' unique codes'']
        \<in> set (fst (step5 two_patients))
   \<and> [Txt ''    - Procedures:              N/A (not in input_info)'']
        \<in> set (fst (step5 two_patients))
   \<and> [Txt ''    - Drugs (Prescriptions):   '', IntR 0 6, Txt '' unique codes'']
        \<in> set (fst (step5 two_patients))"
proof -
  have h: "\<forall>k \<in> {''conditions'', ''procedures'', ''drugs''}.
             feature_missing two_patients k \<or> vocab_size two_patients k \<noteq> None"
    by (simp add: feature_missing_def vocab_size_def two_patients_def)
  have a: "vocab_size two_patients ''conditions'' = Some 2"
    and b: "feature_missing two_patients ''procedures''"
    and c: "vocab_size two_patients ''drugs'' = Some 0"
    by (simp_all add: feature_missing_def vocab_size_def two_patients_def)
  show ?thesis
    using vocabulary_step_reports[OF h] a b c by auto
qed

text \<open>
  The claim as first stated fails in a run that reaches the step: with one sample, whose
  collection has \<open>input_info\<close> with the key \<open>conditions\<close> but no \<open>vocab\<close> in its
  entry, Steps 1 to 4 return, and Step 5 raises KeyError right after its heading, before
  any feature line.
\<close>

theorem missing_vocab_counterexample:
  "snd (main (stub (Inr \<lparr>patients = [''p1''], tables = [''diagnoses_icd'']\<rparr>) no_vocab))
     = Inl (KeyError (py_repr ''vocab''))
   \<and> last (fst (main (stub (Inr \<lparr>patients = [''p1''], tables = [''diagnoses_icd'']\<rparr>) no_vocab)))
     = [Txt ''  Vocabulary Statistics:'']
   \<and> \<not> feature_missing no_vocab ''conditions''"
proof -
  define ds where "ds = \<lparr>patients = [''p1''], tables = [''diagnoses_icd'']\<rparr>"
  define env where "env = stub (Inr ds) no_vocab"
  have h1: "MIMIC4Dataset env ''/path/to/mimiciv/''
              [''diagnoses_icd'', ''procedures_icd'', ''prescriptions''] True False = Inr ds"
    and h2: "set_task env ds = Inr no_vocab"
    and h3: "stat_code_mapping env no_vocab ''NDC'' ''ATC'' (Some 3) = Inr no_vocab"
    and h4: "stat_code_mapping env no_vocab ''ICD9CM'' ''ICD10CM'' None = Inr no_vocab"
    by (simp_all add: env_def stub_def)
  have s1: "snd (step1 env) = Inr ds"
    by (simp add: step1_returns[OF h1])
  have s2: "snd (step2 env ds) = Inr no_vocab"
    by (simp add: step2_returns[OF h2])
  have s3: "snd (step3 env no_vocab) = Inr no_vocab"
    by (simp add: step3_returns[OF h3 h4])
  have s4: "snd (step4 env no_vocab) = Inr (no_vocab, no_samples, no_samples)"
    by (rule step4_returns) (simp_all add: env_def stub_def len_def no_vocab_def no_samples_def)
  have s5: "step5 no_vocab =
       ([[Txt (nl @ ''[Step 5] Feature Tokenization - Inspecting Vocabulary Statistics...'')],
         [Txt (replicate 80 CHR ''-'')],
         [Txt ''  Vocabulary Statistics:'']], Inl (KeyError (py_repr ''vocab'')))"
    by (simp add: no_vocab_def step5_def vocab_line_def seq_emit seq_call_Inr seq_call_Inl
        seq_Inl seq_Inr)
  have m: "main env =
       (fst (main env), Inl (KeyError (py_repr ''vocab'')))"
    "last (fst (main env)) = [Txt ''  Vocabulary Statistics:'']"
    by (simp_all add: main_def seq_emit seq_returns[OF s1] seq_returns[OF s2]
        seq_returns[OF s3] seq_returns[OF s4] s5 seq_Inl)
  have f: "\<not> feature_missing no_vocab ''conditions''"
    by (simp add: feature_missing_def no_vocab_def)
  have "snd (main env) = Inl (KeyError (py_repr ''vocab''))"
    using m(1) by (metis snd_conv)
  then show ?thesis
    using m(2) f unfolding env_def ds_def by blast
qed

section \<open>The fixed run of the mathematics script\<close>

lemma sin_45_degrees: "sin (radians 45) = sqrt 2 / 2"
  by (simp add: radians_def sin_45)

lemma sqrt2_lower: "14142135 / 10000000 < sqrt 2"
  by (rule real_less_rsqrt) (simp add: power2_eq_square)

lemma sqrt2_upper: "sqrt 2 < 14142136 / 10000000"
  by (rule real_less_lsqrt) (simp_all add: power2_eq_square)

lemma sin_45_bounds:
  "70710675 / 100000000 < sin (radians 45)" "sin (radians 45) < 7071068 / 10000000"
  using sqrt2_lower sqrt2_upper unfolding sin_45_degrees by linarith+

lemma near_sin_45:
  assumes "\<bar>y - sin (radians 45)\<bar> \<le> 1 / 1000000"
  shows "fixed_digits y 4 = 7071"
proof (rule fixed_digits_between)
  have "7071 / 10000 \<le> y" "y < 70715 / 100000"
    using assms sin_45_bounds by linarith+
  then show "real_of_int 7071 \<le> y * 10 ^ 4" "y * 10 ^ 4 < real_of_int 7071 + 1 / 2"
    by simp_all
qed

lemma factorial_5: "math_factorial 5 = Inr 120"
  by (simp add: math_factorial_def fact_numeral)

lemma gcd_48_18: "math_gcd 48 18 = 6"
  by (simp add: math_gcd_def gcd_red_int[of 48 18] gcd_red_int[of 18 12] gcd_red_int[of 12 6])

text \<open>
  C8. The fixed run of the mathematics script returns, and prints: the sine of 45 degrees
  with four decimals, which reads 0.7071 for the exact sine and for every float within
  one millionth of it; the factorial of 5 as 120; the greatest common divisor of 48 and
  18 as 6.
\<close>

theorem math_demo_examples:
  "snd math_main = Inr ()
   \<and> [Txt ''  sin('', Num 45, Txt (degree_sign @ '') = ''), Fix (sin (radians 45)) 4]
        \<in> set (fst math_main)
   \<and> (\<forall>y. \<bar>y - sin (radians 45)\<bar> \<le> 1 / 1000000 \<longrightarrow> fixed_digits y 4 = 7071)
   \<and> [Txt ''  '', Num 5, Txt ''! = '', Num 120] \<in> set (fst math_main)
   \<and> [Txt ''  gcd('', Num 48, Txt '', '', Num 18, Txt '') = '', Num 6] \<in> set (fst math_main)"
proof -
  note f = factorial_5
  have r: "snd math_main = Inr ()"
    by (simp add: math_main_def Let_def seq_emit f seq_call_Inr snd_emit)
  have a: "[Txt ''  sin('', Num 45, Txt (degree_sign @ '') = ''), Fix (sin (radians 45)) 4]
             \<in> set (fst math_main)"
    by (simp add: math_main_def Let_def seq_emit f seq_call_Inr)
  have b: "[Txt ''  '', Num 5, Txt ''! = '', Num 120] \<in> set (fst math_main)"
    by (simp add: math_main_def Let_def seq_emit f seq_call_Inr fst_emit)
  have c: "[Txt ''  gcd('', Num 48, Txt '', '', Num 18, Txt '') = '', Num 6]
             \<in> set (fst math_main)"
    by (simp add: math_main_def Let_def seq_emit f seq_call_Inr fst_emit gcd_48_18)
  show ?thesis
    using r a b c near_sin_45 by blast
qed

theorem math_demo_examples_witness:
  "fixed_digits (sin (radians 45)) 4 = 7071
   \<and> fixed_digits (6369051672525772 / 9007199254740992) 4 = 7071"
proof -
  have n: "\<forall>y. \<bar>y - sin (radians 45)\<bar> \<le> 1 / 1000000 \<longrightarrow> fixed_digits y 4 = 7071"
    using math_demo_examples by blast
  have "\<bar>6369051672525772 / 9007199254740992 - sin (radians 45)\<bar> \<le> 1 / 1000000"
    using sin_45_bounds by linarith
  then show ?thesis
    using n by simp
qed

end
